theory Spec2Isabelle
  imports Main "HOL-Library.Sublist"
begin

section \<open>BatchMe: the UPC barcode batch generator of \<^verbatim>\<open>barcode_generator.py\<close>\<close>

text \<open>
  The theory embeds the class \<^verbatim>\<open>UPCBarcodeGenerator\<close> (\<^verbatim>\<open>clean_upc\<close>,
  \<^verbatim>\<open>generate_barcode\<close>, \<^verbatim>\<open>generate_batch\<close>) and the function \<^verbatim>\<open>cli_mode\<close>.
  What the program imports and does not define itself is a parameter of the model:
  the character classes of Python's \<^verbatim>\<open>str\<close>, \<^verbatim>\<open>pathlib\<close> and the barcode library.
  The \<^verbatim>\<open>print\<close> calls write to the console only and are left out; the list
  \<^verbatim>\<open>errors\<close>, whose entries are the lines printed to standard error, is kept.
  Asynchronous interrupts inside a library call are outside the model.
\<close>

subsection \<open>Python strings\<close>

text \<open>
  A Python \<^verbatim>\<open>str\<close> is a sequence of Unicode code points, so \<^verbatim>\<open>len\<close> is
  \<^const>\<open>length\<close>. An ASCII literal of the source is written \<open>lit ''...''\<close>.
\<close>

type_synonym str = "nat list"

definition lit :: "string \<Rightarrow> str" where
  "lit s = map of_char s"

text \<open>\<^verbatim>\<open>str(n)\<close> for \<open>n \<ge> 0\<close>: the decimal numeral, code point 48 being \<^verbatim>\<open>'0'\<close>.\<close>

fun str_of_nat :: "nat \<Rightarrow> str" where
  "str_of_nat n = (if n < 10 then [48 + n] else str_of_nat (n div 10) @ [48 + n mod 10])"

declare str_of_nat.simps [simp del]

text \<open>
  The format specification \<^verbatim>\<open>04d\<close>: decimal, padded with zeros after the sign to a
  total width of at least 4 (\<^verbatim>\<open>f"{7:04d}" == "0007"\<close>, \<^verbatim>\<open>f"{-7:04d}" == "-007"\<close>,
  \<^verbatim>\<open>f"{12345:04d}" == "12345"\<close>). Code point 45 is \<^verbatim>\<open>'-'\<close>.
\<close>

definition zero_pad :: "nat \<Rightarrow> str \<Rightarrow> str" where
  "zero_pad width s = replicate (width - length s) 48 @ s"

definition format_04d :: "int \<Rightarrow> str" where
  "format_04d n =
     (if n < 0 then 45 # zero_pad 3 (str_of_nat (nat (- n)))
      else zero_pad 4 (str_of_nat (nat n)))"

subsection \<open>The runtime the program runs on\<close>

text \<open>
  An exception of class \<^verbatim>\<open>Exception\<close>: the \<^verbatim>\<open>ValueError\<close> that
  \<^verbatim>\<open>generate_barcode\<close> raises itself, or any exception raised by the barcode library
  or the file system. Each carries the text that \<^verbatim>\<open>str(e)\<close> returns.
\<close>

datatype exn = ValueError str | ExternalError str

fun exn_str :: "exn \<Rightarrow> str" where
  "exn_str (ValueError m) = m"
| "exn_str (ExternalError m) = m"

text \<open>
  The parts of Python and of the \<^verbatim>\<open>barcode\<close> package that the program calls.
  \<open>'w\<close> is the state of the outside world (the file system), \<open>'c\<close> a barcode class,
  \<open>'b\<close> a barcode object.
  \<^item> \<open>isdigit\<close>, \<open>isspace\<close>: \<^verbatim>\<open>str.isdigit\<close> on one character, and the characters
    that \<^verbatim>\<open>str.strip()\<close> removes;
  \<^item> \<open>joinpath d f\<close>: \<^verbatim>\<open>str(Path(d) / f)\<close>;
  \<^item> \<open>mkdir d\<close>: \<^verbatim>\<open>Path(d).mkdir(exist_ok=True)\<close>, which may raise;
  \<^item> \<open>get_barcode_class name\<close>: \<^verbatim>\<open>barcode.get_barcode_class(name)\<close>;
  \<^item> \<open>new_barcode cls code\<close>: \<^verbatim>\<open>cls(code, writer=ImageWriter())\<close>;
  \<^item> \<open>save b path\<close>: \<^verbatim>\<open>b.save(path)\<close>, which returns the path of the file written.
\<close>

record ('c, 'b, 'w) runtime =
  isdigit :: "nat \<Rightarrow> bool"
  isspace :: "nat \<Rightarrow> bool"
  joinpath :: "str \<Rightarrow> str \<Rightarrow> str"
  mkdir :: "str \<Rightarrow> 'w \<Rightarrow> exn option \<times> 'w"
  get_barcode_class :: "str \<Rightarrow> 'w \<Rightarrow> (exn + 'c) \<times> 'w"
  new_barcode :: "'c \<Rightarrow> str \<Rightarrow> 'w \<Rightarrow> (exn + 'b) \<times> 'w"
  save :: "'b \<Rightarrow> str \<Rightarrow> 'w \<Rightarrow> (exn + str) \<times> 'w"

text \<open>\<^verbatim>\<open>s.strip()\<close>: leading and trailing whitespace removed.\<close>

definition strip :: "('c, 'b, 'w) runtime \<Rightarrow> str \<Rightarrow> str" where
  "strip rt s = rev (dropWhile (isspace rt) (rev (dropWhile (isspace rt) s)))"

subsection \<open>\<^verbatim>\<open>UPCBarcodeGenerator\<close>\<close>

record generator =
  output_dir :: str

text \<open>\<^verbatim>\<open>clean_upc\<close>: \<^verbatim>\<open>''.join(c for c in upc if c.isdigit())\<close>.\<close>

primrec clean_upc :: "('c, 'b, 'w) runtime \<Rightarrow> str \<Rightarrow> str" where
  "clean_upc rt [] = []"
| "clean_upc rt (c # cs) = (if isdigit rt c then c # clean_upc rt cs else clean_upc rt cs)"

text \<open>
  \<^verbatim>\<open>generate_barcode\<close>. The length test \<^verbatim>\<open>not in [8, 12]\<close> raises the
  \<^verbatim>\<open>ValueError\<close> before anything of the library is called; afterwards every call of
  the library may raise, and the exception leaves the function.
\<close>

definition invalid_length_msg :: "nat \<Rightarrow> str" where
  "invalid_length_msg n =
     lit ''Invalid UPC length: '' @ str_of_nat n @ lit '' digits. Must be 8 or 12 digits.''"

definition generate_barcode ::
  "('c, 'b, 'w) runtime \<Rightarrow> generator \<Rightarrow> str \<Rightarrow> int \<Rightarrow> 'w \<Rightarrow> (exn + str) \<times> 'w" where
  "generate_barcode rt self upc index w =
     (let cleaned_upc = clean_upc rt upc in
      if length cleaned_upc \<notin> set [8, 12]
      then (Inl (ValueError (invalid_length_msg (length cleaned_upc))), w)
      else
        case (if length cleaned_upc = 12
              then get_barcode_class rt (lit ''upca'') w
              else get_barcode_class rt (lit ''upce'') w) of
          (Inl e, w1) \<Rightarrow> (Inl e, w1)
        | (Inr barcode_class, w1) \<Rightarrow>
            (let filename = format_04d index @ lit ''_'' @ cleaned_upc;
                 output_path = joinpath rt (output_dir self) filename
             in case new_barcode rt barcode_class cleaned_upc w1 of
                  (Inl e, w2) \<Rightarrow> (Inl e, w2)
                | (Inr upc_barcode, w2) \<Rightarrow> save rt upc_barcode output_path w2))"

text \<open>
  \<^verbatim>\<open>generate_batch\<close>. The loop runs over \<^verbatim>\<open>enumerate(upc_list, start=1)\<close>; its state is
  the two lists and the world. \<^verbatim>\<open>except Exception as e\<close> turns every exception of
  \<^verbatim>\<open>generate_barcode\<close> into an entry of \<^verbatim>\<open>errors\<close>. Code point 10007 is the
  ballot mark that starts the message, 39 the apostrophe.
\<close>

primrec enumerate_from :: "int \<Rightarrow> 'a list \<Rightarrow> (int \<times> 'a) list" where
  "enumerate_from n [] = []"
| "enumerate_from n (x # xs) = (n, x) # enumerate_from (n + 1) xs"

record 'w batch_state =
  generated_files :: "str list"
  errors :: "str list"
  world :: 'w

definition error_msg :: "str \<Rightarrow> exn \<Rightarrow> str" where
  "error_msg stripped e =
     [10007] @ lit '' Error generating barcode for '' @ [39] @ stripped @ [39]
       @ lit '': '' @ exn_str e"

fun batch_loop ::
  "('c, 'b, 'w) runtime \<Rightarrow> generator \<Rightarrow> (int \<times> str) list \<Rightarrow> 'w batch_state \<Rightarrow> 'w batch_state" where
  "batch_loop rt self [] st = st"
| "batch_loop rt self ((index, upc) # rest) st =
     (if strip rt upc = [] then batch_loop rt self rest st
      else
        case generate_barcode rt self (strip rt upc) index (world st) of
          (Inr file_path, w') \<Rightarrow>
            batch_loop rt self rest
              (st\<lparr>generated_files := generated_files st @ [file_path], world := w'\<rparr>)
        | (Inl e, w') \<Rightarrow>
            batch_loop rt self rest
              (st\<lparr>errors := errors st @ [error_msg (strip rt upc) e], world := w'\<rparr>))"

text \<open>The state in which the loop of \<^verbatim>\<open>generate_batch\<close> ends.\<close>

definition run_batch ::
  "('c, 'b, 'w) runtime \<Rightarrow> generator \<Rightarrow> str list \<Rightarrow> 'w \<Rightarrow> 'w batch_state" where
  "run_batch rt self upc_list w =
     batch_loop rt self (enumerate_from 1 upc_list)
       \<lparr>generated_files = [], errors = [], world = w\<rparr>"

text \<open>What \<^verbatim>\<open>generate_batch\<close> returns, and the world it leaves.\<close>

definition generate_batch ::
  "('c, 'b, 'w) runtime \<Rightarrow> generator \<Rightarrow> str list \<Rightarrow> 'w \<Rightarrow> str list \<times> 'w" where
  "generate_batch rt self upc_list w =
     (let st = run_batch rt self upc_list w in (generated_files st, world st))"

subsection \<open>\<^verbatim>\<open>cli_mode\<close>\<close>






subsection \<open>The specification's vocabulary\<close>

text \<open>
  The specification names the two encodings and speaks of an abstract renderer that
  takes the cleaned digits and the variant and reports the path of the artifact. Here
  it is, in terms of the library: the class is looked up by the variant's name, the
  barcode object is built from the digits and saved under the given path; the first
  exception ends it.
\<close>

datatype variant = UPC_A | UPC_E

fun class_name :: "variant \<Rightarrow> str" where
  "class_name UPC_A = lit ''upca''"
| "class_name UPC_E = lit ''upce''"

definition render ::
  "('c, 'b, 'w) runtime \<Rightarrow> variant \<Rightarrow> str \<Rightarrow> str \<Rightarrow> 'w \<Rightarrow> (exn + str) \<times> 'w" where
  "render rt v digits path w =
     (case get_barcode_class rt (class_name v) w of
        (Inl e, w1) \<Rightarrow> (Inl e, w1)
      | (Inr cls, w1) \<Rightarrow>
          (case new_barcode rt cls digits w1 of
             (Inl e, w2) \<Rightarrow> (Inl e, w2)
           | (Inr b, w2) \<Rightarrow> save rt b path w2))"

text \<open>The file name the specification gives the artifact of the item with this index.\<close>

definition artifact_name :: "int \<Rightarrow> str \<Rightarrow> str" where
  "artifact_name index digits = format_04d index @ lit ''_'' @ digits"

text \<open>
  The successful items of a batch in the order of processing, each with its sequence
  index and the path reported for it: the successful batch item results of the
  specification, computed by the calls of \<^verbatim>\<open>generate_barcode\<close> that the loop makes.
\<close>

fun successes ::
  "('c, 'b, 'w) runtime \<Rightarrow> generator \<Rightarrow> (int \<times> str) list \<Rightarrow> 'w \<Rightarrow> (int \<times> str) list" where
  "successes rt self [] w = []"
| "successes rt self ((index, upc) # rest) w =
     (if strip rt upc = [] then successes rt self rest w
      else
        case generate_barcode rt self (strip rt upc) index w of
          (Inr file_path, w') \<Rightarrow> (index, file_path) # successes rt self rest w'
        | (Inl e, w') \<Rightarrow> successes rt self rest w')"

text \<open>A line is blank when it is empty or consists of whitespace only.\<close>

definition blank :: "('c, 'b, 'w) runtime \<Rightarrow> str \<Rightarrow> bool" where
  "blank rt line = list_all (isspace rt) line"

text \<open>
  On ASCII, \<^verbatim>\<open>str.isdigit\<close> holds of \<^verbatim>\<open>'0'\<close> to \<^verbatim>\<open>'9'\<close> only, and
  \<^verbatim>\<open>str.strip()\<close> removes the code points 9 to 13 and 28 to 32. A runtime that
  behaves like Python there:
\<close>

definition ascii_classes :: "('c, 'b, 'w) runtime \<Rightarrow> bool" where
  "ascii_classes rt \<longleftrightarrow>
     (\<forall>c < 128. isdigit rt c = (48 \<le> c \<and> c \<le> 57)) \<and>
     (\<forall>c < 128. isspace rt c = ((9 \<le> c \<and> c \<le> 13) \<or> (28 \<le> c \<and> c \<le> 32)))"

text \<open>Reading a decimal numeral back, as \<^verbatim>\<open>int(s)\<close> does on a string of ASCII digits.\<close>

definition nat_of_str :: "str \<Rightarrow> nat" where
  "nat_of_str s = foldl (\<lambda>a c. 10 * a + (c - 48)) 0 s"

subsection \<open>A test double for the runtime\<close>

text \<open>
  An instance of the runtime on which the definitions can run: ASCII character
  classes, POSIX path joining, and a barcode library that knows the two class names,
  accepts every code and records each file it is asked to save in the world, a list
  of paths.
\<close>

datatype stub_class = UPCA | UPCE

definition stub_runtime :: "(stub_class, stub_class \<times> str, str list) runtime" where
  "stub_runtime =
     \<lparr>isdigit = (\<lambda>c. 48 \<le> c \<and> c \<le> 57),
      isspace = (\<lambda>c. (9 \<le> c \<and> c \<le> 13) \<or> (28 \<le> c \<and> c \<le> 32)),
      joinpath = (\<lambda>d f. d @ lit ''/'' @ f),
      mkdir = (\<lambda>d w. (None, w)),
      get_barcode_class = (\<lambda>name w.
        if name = lit ''upca'' then (Inr UPCA, w)
        else if name = lit ''upce'' then (Inr UPCE, w)
        else (Inl (ExternalError name), w)),
      new_barcode = (\<lambda>cls code w. (Inr (cls, code), w)),
      save = (\<lambda>b path w. (Inr (path @ lit ''.png''), w @ [path @ lit ''.png'']))\<rparr>"


definition stub_generator :: generator where
  "stub_generator = \<lparr>output_dir = lit ''barcodes''\<rparr>"

section \<open>Properties\<close>

subsection \<open>Auxiliary facts\<close>

lemma clean_upc_filter: "clean_upc rt upc = filter (isdigit rt) upc"
  by (induction upc) simp_all

lemma strip_empty_iff: "strip rt s = [] \<longleftrightarrow> blank rt s"
proof -
  have "(\<forall>x\<in>set (dropWhile P s). P x) \<longleftrightarrow> (\<forall>x\<in>set s. P x)" for P :: "nat \<Rightarrow> bool"
  proof
    assume a: "\<forall>x\<in>set (dropWhile P s). P x"
    have "set s = set (takeWhile P s) \<union> set (dropWhile P s)"
      by (metis set_append takeWhile_dropWhile_id)
    with a show "\<forall>x\<in>set s. P x"
      by (auto dest: set_takeWhileD)
  next
    assume "\<forall>x\<in>set s. P x"
    then show "\<forall>x\<in>set (dropWhile P s). P x"
      by (auto dest: set_dropWhileD)
  qed
  then show ?thesis
    by (simp add: strip_def blank_def list_all_iff)
qed

lemma enumerate_from_append:
  "enumerate_from n (xs @ ys) = enumerate_from n xs @ enumerate_from (n + int (length xs)) ys"
  by (induction xs arbitrary: n) (simp_all add: algebra_simps)

lemma batch_loop_append:
  "batch_loop rt self (xs @ ys) st = batch_loop rt self ys (batch_loop rt self xs st)"
  by (induction rt self xs st rule: batch_loop.induct) (simp_all split: prod.splits sum.splits)

lemma generate_barcode_render:
  "length (clean_upc rt upc) = 12 \<or> length (clean_upc rt upc) = 8 \<Longrightarrow>
   generate_barcode rt self upc index w =
     render rt (if length (clean_upc rt upc) = 12 then UPC_A else UPC_E) (clean_upc rt upc)
       (joinpath rt (output_dir self) (artifact_name index (clean_upc rt upc))) w"
  by (auto simp: generate_barcode_def render_def artifact_name_def Let_def
        split: prod.splits sum.splits)

lemma generate_barcode_invalid:
  "length (clean_upc rt upc) \<noteq> 12 \<Longrightarrow> length (clean_upc rt upc) \<noteq> 8 \<Longrightarrow>
   generate_barcode rt self upc index w =
     (Inl (ValueError (invalid_length_msg (length (clean_upc rt upc)))), w)"
  by (auto simp: generate_barcode_def Let_def)

lemma nat_of_str_snoc: "nat_of_str (s @ [c]) = 10 * nat_of_str s + (c - 48)"
  by (simp add: nat_of_str_def)

lemma nat_of_str_of_nat: "nat_of_str (str_of_nat n) = n"
proof (induction n rule: str_of_nat.induct)
  case (1 n)
  show ?case
  proof (cases "n < 10")
    case True
    then show ?thesis by (simp add: str_of_nat.simps[of n] nat_of_str_def)
  next
    case False
    with 1 show ?thesis
      by (simp add: str_of_nat.simps[of n] nat_of_str_snoc)
  qed
qed

lemma nat_of_str_zero_pad: "nat_of_str (zero_pad k s) = nat_of_str s"
proof -
  have "foldl (\<lambda>a c. 10 * a + (c - 48)) 0 (replicate m (48::nat)) = 0" for m
    by (induction m) simp_all
  then show ?thesis by (simp add: nat_of_str_def zero_pad_def)
qed

lemma nat_of_str_format_04d: "0 \<le> i \<Longrightarrow> int (nat_of_str (format_04d i)) = i"
  by (simp add: format_04d_def nat_of_str_zero_pad nat_of_str_of_nat)


lemma batch_loop_filter:
  "batch_loop rt self (filter (\<lambda>(i, upc). \<not> blank rt upc) ixs) st = batch_loop rt self ixs st"
  by (induction rt self ixs st rule: batch_loop.induct)
     (simp_all add: strip_empty_iff split: prod.splits sum.splits)



lemma ascii_isdigit: "ascii_classes rt \<Longrightarrow> c < 128 \<Longrightarrow> isdigit rt c = (48 \<le> c \<and> c \<le> 57)"
  by (simp add: ascii_classes_def)

lemma ascii_isspace:
  "ascii_classes rt \<Longrightarrow> c < 128 \<Longrightarrow> isspace rt c = ((9 \<le> c \<and> c \<le> 13) \<or> (28 \<le> c \<and> c \<le> 32))"
  by (simp add: ascii_classes_def)

lemma batch_loop_Cons:
  "batch_loop rt self (x # xs) st = batch_loop rt self xs (batch_loop rt self [x] st)"
  using batch_loop_append [of rt self "[x]" xs st] by simp

lemma run_batch_split:
  "run_batch rt self (pre @ line # post) w =
     batch_loop rt self (enumerate_from (int (length pre) + 2) post)
       (batch_loop rt self [(int (length pre) + 1, line)] (run_batch rt self pre w))"
proof -
  have e: "enumerate_from 1 (pre @ line # post) =
      enumerate_from 1 pre @ (int (length pre) + 1, line) # enumerate_from (int (length pre) + 2) post"
    by (simp add: enumerate_from_append add.commute)
  show ?thesis
    unfolding run_batch_def e batch_loop_append by (rule batch_loop_Cons)
qed

lemma bad_length_7:
  assumes "ascii_classes rt"
  shows "strip rt (lit ''1234567'') = lit ''1234567''"
    and "clean_upc rt (lit ''1234567'') = lit ''1234567''"
  using assms by (simp_all add: lit_def strip_def ascii_isdigit ascii_isspace)

lemma str_of_nat_7: "str_of_nat 7 = lit ''7''"
  by code_simp


lemma filter_enumerate_all_blank:
  "list_all P xs \<Longrightarrow> filter (\<lambda>(i, u). \<not> P u) (enumerate_from n xs) = []"
  by (induction xs arbitrary: n) simp_all


lemma batch_loop_single:
  "batch_loop rt self [(index, upc)] st =
     (if strip rt upc = [] then st
      else
        case generate_barcode rt self (strip rt upc) index (world st) of
          (Inr file_path, w') \<Rightarrow>
            st\<lparr>generated_files := generated_files st @ [file_path], world := w'\<rparr>
        | (Inl e, w') \<Rightarrow>
            st\<lparr>errors := errors st @ [error_msg (strip rt upc) e], world := w'\<rparr>)"
  by (simp split: prod.splits sum.splits)

lemma generate_barcode_success:
  assumes "generate_barcode rt self u i w0 = (Inr p, w1)"
  shows "\<exists>v. render rt v (clean_upc rt u)
             (joinpath rt (output_dir self) (format_04d i @ lit ''_'' @ clean_upc rt u)) w0
           = (Inr p, w1)"
proof (cases "length (clean_upc rt u) = 12 \<or> length (clean_upc rt u) = 8")
  case True
  from generate_barcode_render [OF True, of self i w0] assms show ?thesis
    by (auto simp: artifact_name_def)
next
  case False
  with generate_barcode_invalid [of rt u self i w0] assms show ?thesis
    by simp
qed

lemma batch_loop_successes:
  "generated_files (batch_loop rt self ixs st) =
     generated_files st @ map snd (successes rt self ixs (world st))"
  by (induction rt self ixs st rule: batch_loop.induct)
     (simp_all split: prod.splits sum.splits)

lemma successes_enumerate:
  "(i, p) \<in> set (successes rt self (enumerate_from n xs) w) \<Longrightarrow>
   n \<le> i \<and> i < n + int (length xs) \<and> \<not> blank rt (xs ! nat (i - n)) \<and>
   (\<exists>w0 w1. generate_barcode rt self (strip rt (xs ! nat (i - n))) i w0 = (Inr p, w1))"
proof (induction xs arbitrary: n w)
  case Nil
  then show ?case by simp
next
  case (Cons x xs)
  have tail: "n \<le> i \<and> i < n + int (length (x # xs)) \<and> \<not> blank rt ((x # xs) ! nat (i - n)) \<and>
      (\<exists>w0 w1. generate_barcode rt self (strip rt ((x # xs) ! nat (i - n))) i w0 = (Inr p, w1))"
    if "(i, p) \<in> set (successes rt self (enumerate_from (n + 1) xs) w')" for w'
  proof -
    from Cons.IH [OF that] have ih: "n + 1 \<le> i" "i < n + 1 + int (length xs)"
      "\<not> blank rt (xs ! nat (i - (n + 1)))"
      "\<exists>w0 w1. generate_barcode rt self (strip rt (xs ! nat (i - (n + 1)))) i w0 = (Inr p, w1)"
      by blast+
    from ih(1) have "nat (i - n) = Suc (nat (i - (n + 1)))"
      by simp
    then have "(x # xs) ! nat (i - n) = xs ! nat (i - (n + 1))"
      by simp
    with ih show ?thesis by simp
  qed
  show ?case
  proof (cases "strip rt x = []")
    case True
    with Cons.prems tail show ?thesis by simp
  next
    case False
    obtain r w' where g: "generate_barcode rt self (strip rt x) n w = (r, w')"
      by (cases "generate_barcode rt self (strip rt x) n w")
    show ?thesis
    proof (cases r)
      case (Inl e)
      with Cons.prems False g tail show ?thesis by simp
    next
      case (Inr q)
      with Cons.prems False g
      consider "i = n" "p = q" | "(i, p) \<in> set (successes rt self (enumerate_from (n + 1) xs) w')"
        by auto
      then show ?thesis
      proof cases
        case 1
        with False g Inr show ?thesis
          by (auto simp: strip_empty_iff)
      next
        case 2
        with tail show ?thesis by blast
      qed
    qed
  qed
qed

lemma successes_sorted:
  "sorted_wrt (<) (map fst (successes rt self (enumerate_from n xs) w))"
proof (induction xs arbitrary: n w)
  case Nil
  then show ?case by simp
next
  case (Cons x xs)
  have later: "n < i" if "(i, p) \<in> set (successes rt self (enumerate_from (n + 1) xs) w')" for i p w'
    using successes_enumerate [OF that] by simp
  show ?case
    using Cons.IH [of "n + 1"] later
    by (auto split: prod.splits sum.splits)
qed




lemma length_str_of_nat: "n < 10 ^ k \<Longrightarrow> 0 < k \<Longrightarrow> length (str_of_nat n) \<le> k"
proof (induction n arbitrary: k rule: str_of_nat.induct)
  case (1 n)
  show ?case
  proof (cases "n < 10")
    case True
    with "1.prems" show ?thesis
      by (simp add: str_of_nat.simps [of n])
  next
    case False
    with "1.prems" obtain j where k: "k = Suc j"
      by (cases k) simp_all
    from False "1.prems" k have j: "0 < j"
      by (cases j) simp_all
    from "1.prems" k have "n div 10 < 10 ^ j"
      by (simp add: less_mult_imp_div_less mult.commute)
    from "1.IH" [OF False this j] False k show ?thesis
      by (simp add: str_of_nat.simps [of n])
  qed
qed

lemma length_format_04d_small: "0 \<le> i \<Longrightarrow> i \<le> 9999 \<Longrightarrow> length (format_04d i) = 4"
proof -
  assume "0 \<le> i" "i \<le> 9999"
  then have "nat i < 10 ^ 4"
    by simp
  then have "length (str_of_nat (nat i)) \<le> 4"
    by (rule length_str_of_nat) simp
  with \<open>0 \<le> i\<close> show ?thesis
    by (simp add: format_04d_def zero_pad_def)
qed

subsection \<open>Cleaning\<close>

text \<open>
  Claim C6. \<^verbatim>\<open>clean_upc\<close> is total and has no error path (its result is a plain
  string): it returns the characters of its argument that are digits, in their order
  and with nothing else, and the result is empty exactly when the argument contains
  no digit.
\<close>

theorem clean_upc_removes_non_digits:
  "clean_upc rt upc = filter (isdigit rt) upc \<and>
   subseq (clean_upc rt upc) upc \<and>
   (\<forall>c \<in> set (clean_upc rt upc). isdigit rt c) \<and>
   (clean_upc rt upc = [] \<longleftrightarrow> (\<forall>c \<in> set upc. \<not> isdigit rt c))"
  by (simp add: clean_upc_filter filter_empty_conv)

theorem clean_upc_removes_non_digits_witness:
  "clean_upc stub_runtime (lit ''0 12345-67890 5'') = lit ''012345678905'' \<and>
   list_all (isdigit stub_runtime) (clean_upc stub_runtime (lit ''0 12345-67890 5'')) \<and>
   \<not> list_ex (isdigit stub_runtime) (lit ''n/a'') \<and>
   clean_upc stub_runtime (lit ''n/a'') = []"
proof -
  have a: "clean_upc stub_runtime (lit ''0 12345-67890 5'') = lit ''012345678905''"
    by code_simp
  have b: "\<not> list_ex (isdigit stub_runtime) (lit ''n/a'')"
    by code_simp
  then have b': "\<forall>c \<in> set (lit ''n/a''). \<not> isdigit stub_runtime c"
    unfolding list_ex_iff by blast
  from b' clean_upc_removes_non_digits [of stub_runtime "lit ''n/a''"]
  have c: "clean_upc stub_runtime (lit ''n/a'') = []"
    by blast
  from clean_upc_removes_non_digits [of stub_runtime "lit ''0 12345-67890 5''"]
  have "\<forall>c \<in> set (clean_upc stub_runtime (lit ''0 12345-67890 5'')). isdigit stub_runtime c"
    by blast
  then have d: "list_all (isdigit stub_runtime) (clean_upc stub_runtime (lit ''0 12345-67890 5''))"
    unfolding list_all_iff .
  from a b c d show ?thesis by blast
qed

text \<open>Claim C7. \<^verbatim>\<open>clean_upc\<close> is idempotent.\<close>

theorem clean_upc_idempotent: "clean_upc rt (clean_upc rt x) = clean_upc rt x"
  by (simp add: clean_upc_filter)

subsection \<open>One barcode\<close>



text \<open>
  Claim C9. \<^verbatim>\<open>generate_barcode\<close> cleans its own argument: a string and its cleaned form
  give the same result in the same world, and so do any two strings with the same
  digits. Characters that are not digits never decide between success and failure.
\<close>

theorem generate_barcode_cleans_argument:
  "generate_barcode rt self (clean_upc rt s) i w = generate_barcode rt self s i w \<and>
   (clean_upc rt s = clean_upc rt t \<longrightarrow>
      generate_barcode rt self s i w = generate_barcode rt self t i w)"
  by (simp add: generate_barcode_def clean_upc_filter)

theorem generate_barcode_cleans_argument_witness:
  "clean_upc stub_runtime (lit ''0-12345-67890-5'') = clean_upc stub_runtime (lit ''012345 678905'') \<and>
   generate_barcode stub_runtime stub_generator (lit ''0-12345-67890-5'') 1 [] =
     generate_barcode stub_runtime stub_generator (lit ''012345 678905'') 1 [] \<and>
   generate_barcode stub_runtime stub_generator (lit ''012345 678905'') 1 [] =
     (Inr (lit ''barcodes/0001_012345678905.png''), [lit ''barcodes/0001_012345678905.png''])"
proof -
  have a: "clean_upc stub_runtime (lit ''0-12345-67890-5'') =
      clean_upc stub_runtime (lit ''012345 678905'')"
    by code_simp
  have b: "generate_barcode stub_runtime stub_generator (lit ''012345 678905'') 1 [] =
     (Inr (lit ''barcodes/0001_012345678905.png''), [lit ''barcodes/0001_012345678905.png''])"
    by code_simp
  show ?thesis
    using a b generate_barcode_cleans_argument
        [of stub_runtime stub_generator "lit ''0-12345-67890-5''" 1 "[]" "lit ''012345 678905''"]
    by blast
qed

subsection \<open>Invalid lengths\<close>

text \<open>
  Claim C2. When the number of digits after cleaning is neither 8 nor 12,
  \<^verbatim>\<open>generate_barcode\<close> raises the \<^verbatim>\<open>ValueError\<close> whose message carries that number
  as a decimal numeral (reading the numeral back gives the number), before anything
  is rendered. On a runtime with Python's ASCII character classes, the batch of the
  single line \<^verbatim>\<open>1234567\<close> ends with no generated file and exactly one error, whose
  text names the 7 digits.
\<close>

theorem invalid_length_reported:
  "(length (clean_upc rt upc) \<noteq> 8 \<and> length (clean_upc rt upc) \<noteq> 12 \<longrightarrow>
      generate_barcode rt self upc index w =
        (Inl (ValueError (lit ''Invalid UPC length: '' @ str_of_nat (length (clean_upc rt upc))
                            @ lit '' digits. Must be 8 or 12 digits.'')), w) \<and>
      nat_of_str (str_of_nat (length (clean_upc rt upc))) = length (clean_upc rt upc)) \<and>
   (ascii_classes rt \<longrightarrow>
      run_batch rt self [lit ''1234567''] w =
        \<lparr>generated_files = [],
         errors = [[10007] @ lit '' Error generating barcode for '' @ [39] @ lit ''1234567''
                     @ [39] @ lit '': Invalid UPC length: 7 digits. Must be 8 or 12 digits.''],
         world = w\<rparr> \<and>
      generate_batch rt self [lit ''1234567''] w = ([], w))"
proof (intro conjI impI)
  assume "length (clean_upc rt upc) \<noteq> 8 \<and> length (clean_upc rt upc) \<noteq> 12"
  then show "generate_barcode rt self upc index w =
        (Inl (ValueError (lit ''Invalid UPC length: '' @ str_of_nat (length (clean_upc rt upc))
                            @ lit '' digits. Must be 8 or 12 digits.'')), w)"
    by (simp add: generate_barcode_invalid invalid_length_msg_def)
next
  show "nat_of_str (str_of_nat (length (clean_upc rt upc))) = length (clean_upc rt upc)"
    by (rule nat_of_str_of_nat)
next
  assume a: "ascii_classes rt"
  have len: "length (lit ''1234567'') = 7"
    by (simp add: lit_def)
  have g: "generate_barcode rt self (lit ''1234567'') 1 w =
      (Inl (ValueError (invalid_length_msg 7)), w)"
    using generate_barcode_invalid [of rt "lit ''1234567''" self 1 w]
    by (simp add: bad_length_7 [OF a] len)
  have m: "error_msg (lit ''1234567'') (ValueError (invalid_length_msg 7)) =
      [10007] @ lit '' Error generating barcode for '' @ [39] @ lit ''1234567''
         @ [39] @ lit '': Invalid UPC length: 7 digits. Must be 8 or 12 digits.''"
    by (simp add: error_msg_def invalid_length_msg_def str_of_nat_7 lit_def)
  have ne: "lit ''1234567'' \<noteq> []"
    by (simp add: lit_def)
  show r: "run_batch rt self [lit ''1234567''] w =
        \<lparr>generated_files = [],
         errors = [[10007] @ lit '' Error generating barcode for '' @ [39] @ lit ''1234567''
                     @ [39] @ lit '': Invalid UPC length: 7 digits. Must be 8 or 12 digits.''],
         world = w\<rparr>"
    unfolding m [symmetric]
    by (simp add: run_batch_def bad_length_7 [OF a] ne g)
  show "generate_batch rt self [lit ''1234567''] w = ([], w)"
    by (simp add: generate_batch_def r)
qed

theorem invalid_length_reported_witness:
  "length (clean_upc stub_runtime (lit ''12-345'')) \<noteq> 8 \<and>
   length (clean_upc stub_runtime (lit ''12-345'')) \<noteq> 12 \<and>
   generate_barcode stub_runtime stub_generator (lit ''12-345'') 4 [] =
     (Inl (ValueError (lit ''Invalid UPC length: 5 digits. Must be 8 or 12 digits.'')), []) \<and>
   ascii_classes stub_runtime \<and>
   run_batch stub_runtime stub_generator [lit ''1234567''] [] =
        \<lparr>generated_files = [],
         errors = [[10007] @ lit '' Error generating barcode for '' @ [39] @ lit ''1234567''
                     @ [39] @ lit '': Invalid UPC length: 7 digits. Must be 8 or 12 digits.''],
         world = []\<rparr> \<and>
   generate_batch stub_runtime stub_generator [lit ''1234567''] [] = ([], [])"
proof -
  have a: "length (clean_upc stub_runtime (lit ''12-345'')) \<noteq> 8"
    "length (clean_upc stub_runtime (lit ''12-345'')) \<noteq> 12"
    by code_simp+
  have b: "lit ''Invalid UPC length: '' @ str_of_nat (length (clean_upc stub_runtime (lit ''12-345'')))
             @ lit '' digits. Must be 8 or 12 digits.'' =
           lit ''Invalid UPC length: 5 digits. Must be 8 or 12 digits.''"
    by code_simp
  have c: "ascii_classes stub_runtime"
    by (simp add: ascii_classes_def stub_runtime_def)
  note t = invalid_length_reported [of stub_runtime "lit ''12-345''" stub_generator 4 "[]"]
  from a t have "generate_barcode stub_runtime stub_generator (lit ''12-345'') 4 [] =
     (Inl (ValueError (lit ''Invalid UPC length: '' @ str_of_nat (length (clean_upc stub_runtime (lit ''12-345'')))
             @ lit '' digits. Must be 8 or 12 digits.'')), [])"
    by blast
  then have d: "generate_barcode stub_runtime stub_generator (lit ''12-345'') 4 [] =
     (Inl (ValueError (lit ''Invalid UPC length: 5 digits. Must be 8 or 12 digits.'')), [])"
    unfolding b .
  from a c d t show ?thesis by blast
qed

subsection \<open>Batches\<close>

text \<open>
  Claim C4. Blank lines are skipped: the state in which the loop ends (the list of
  generated files, the list of errors and the world) is the one reached by running
  the loop on the lines that are not blank, under their original indices. A blank
  line at any position leaves the state of the loop as it finds it, and a list of
  blank lines only ends with no file and no error.
\<close>

theorem batch_skips_blank_lines:
  "run_batch rt self upc_list w =
     batch_loop rt self
       (filter (\<lambda>(index, upc). \<not> blank rt upc) (enumerate_from 1 upc_list))
       \<lparr>generated_files = [], errors = [], world = w\<rparr> \<and>
   (blank rt line \<longrightarrow>
      run_batch rt self (pre @ line # post) w =
        batch_loop rt self (enumerate_from (int (length pre) + 2) post)
          (run_batch rt self pre w)) \<and>
   (list_all (blank rt) upc_list \<longrightarrow>
      run_batch rt self upc_list w = \<lparr>generated_files = [], errors = [], world = w\<rparr>)"
proof (intro conjI impI)
  show f: "run_batch rt self upc_list w =
     batch_loop rt self
       (filter (\<lambda>(index, upc). \<not> blank rt upc) (enumerate_from 1 upc_list))
       \<lparr>generated_files = [], errors = [], world = w\<rparr>"
    by (simp add: run_batch_def batch_loop_filter)
  show "run_batch rt self upc_list w = \<lparr>generated_files = [], errors = [], world = w\<rparr>"
    if "list_all (blank rt) upc_list"
    using that by (simp add: f filter_enumerate_all_blank)
  show "run_batch rt self (pre @ line # post) w =
        batch_loop rt self (enumerate_from (int (length pre) + 2) post)
          (run_batch rt self pre w)"
    if "blank rt line"
    using that by (simp add: run_batch_split batch_loop_single strip_empty_iff)
qed

theorem batch_skips_blank_lines_witness:
  "blank stub_runtime (lit ''   '') \<and>
   run_batch stub_runtime stub_generator [lit ''123456789012'', lit ''   '', lit ''1234''] [] =
     batch_loop stub_runtime stub_generator (enumerate_from (int (length [lit ''123456789012'']) + 2) [lit ''1234''])
       (run_batch stub_runtime stub_generator [lit ''123456789012''] []) \<and>
   list_all (blank stub_runtime) [lit '''', lit ''  '', [9, 32, 10]] \<and>
   run_batch stub_runtime stub_generator [lit '''', lit ''  '', [9, 32, 10]] [] =
     \<lparr>generated_files = [], errors = [], world = []\<rparr>"
proof -
  have a: "blank stub_runtime (lit ''   '')"
    by code_simp
  have b: "list_all (blank stub_runtime) [lit '''', lit ''  '', [9, 32, 10]]"
    by code_simp
  from a b
    batch_skips_blank_lines [of stub_runtime stub_generator "[]" "[]" "lit ''   ''"
      "[lit ''123456789012'']" "[lit ''1234'']"]
    batch_skips_blank_lines [of stub_runtime stub_generator "[lit '''', lit ''  '', [9, 32, 10]]" "[]"
      "lit ''   ''" "[]" "[]"]
  show ?thesis by simp
qed



text \<open>
  Claim C10. The list returned keeps the order of the input: it consists of the paths
  of the successful items in the order of processing, their indices are strictly
  increasing, and each index is the position of a line of the input that is not blank,
  is the number read back from the index part of the file name (four digits up to
  9999), and belongs to a rendering under the file name made of that index and the digits of that line.
  The paths generated from any initial part of the input come first in the list
  generated from the whole input.
\<close>

theorem batch_preserves_order:
  "generated_files (run_batch rt self upc_list w) =
     map snd (successes rt self (enumerate_from 1 upc_list) w) \<and>
   sorted_wrt (<) (map fst (successes rt self (enumerate_from 1 upc_list) w)) \<and>
   (\<forall>(i, p) \<in> set (successes rt self (enumerate_from 1 upc_list) w).
      1 \<le> i \<and> i \<le> int (length upc_list) \<and> \<not> blank rt (upc_list ! nat (i - 1)) \<and>
      int (nat_of_str (format_04d i)) = i \<and>
      (i \<le> 9999 \<longrightarrow> length (format_04d i) = 4) \<and>
      (\<exists>v w0 w1.
         render rt v (clean_upc rt (strip rt (upc_list ! nat (i - 1))))
           (joinpath rt (output_dir self)
              (format_04d i @ lit ''_'' @ clean_upc rt (strip rt (upc_list ! nat (i - 1))))) w0
         = (Inr p, w1))) \<and>
   prefix (generated_files (run_batch rt self pre w))
     (generated_files (run_batch rt self (pre @ post) w))"
proof (intro conjI)
  show "generated_files (run_batch rt self upc_list w) =
     map snd (successes rt self (enumerate_from 1 upc_list) w)"
    by (simp add: run_batch_def batch_loop_successes)
  show "sorted_wrt (<) (map fst (successes rt self (enumerate_from 1 upc_list) w))"
    by (rule successes_sorted)
  show "\<forall>(i, p) \<in> set (successes rt self (enumerate_from 1 upc_list) w).
      1 \<le> i \<and> i \<le> int (length upc_list) \<and> \<not> blank rt (upc_list ! nat (i - 1)) \<and>
      int (nat_of_str (format_04d i)) = i \<and>
      (i \<le> 9999 \<longrightarrow> length (format_04d i) = 4) \<and>
      (\<exists>v w0 w1.
         render rt v (clean_upc rt (strip rt (upc_list ! nat (i - 1))))
           (joinpath rt (output_dir self)
              (format_04d i @ lit ''_'' @ clean_upc rt (strip rt (upc_list ! nat (i - 1))))) w0
         = (Inr p, w1))"
  proof (clarify, intro conjI)
    fix i p
    assume "(i, p) \<in> set (successes rt self (enumerate_from 1 upc_list) w)"
    from successes_enumerate [OF this]
    obtain w0 w1 where i: "1 \<le> i" "i < 1 + int (length upc_list)"
      "\<not> blank rt (upc_list ! nat (i - 1))"
      and g: "generate_barcode rt self (strip rt (upc_list ! nat (i - 1))) i w0 = (Inr p, w1)"
      by blast
    from i show "1 \<le> i" "i \<le> int (length upc_list)" "\<not> blank rt (upc_list ! nat (i - 1))"
      by simp_all
    from i show "int (nat_of_str (format_04d i)) = i"
      by (simp add: nat_of_str_format_04d)
    from i show "i \<le> 9999 \<longrightarrow> length (format_04d i) = 4"
      by (simp add: length_format_04d_small)
    from generate_barcode_success [OF g]
    show "\<exists>v w0 w1.
         render rt v (clean_upc rt (strip rt (upc_list ! nat (i - 1))))
           (joinpath rt (output_dir self)
              (format_04d i @ lit ''_'' @ clean_upc rt (strip rt (upc_list ! nat (i - 1))))) w0
         = (Inr p, w1)"
      by blast
  qed
  show "prefix (generated_files (run_batch rt self pre w))
     (generated_files (run_batch rt self (pre @ post) w))"
    by (simp add: run_batch_def enumerate_from_append batch_loop_append
          batch_loop_successes [of rt self "enumerate_from (1 + int (length pre)) post"])
qed

theorem batch_preserves_order_witness:
  "successes stub_runtime stub_generator
     (enumerate_from 1 [lit ''123456789012'', lit '''', lit ''1234567'', lit ''12345678'']) [] =
     [(1, lit ''barcodes/0001_123456789012.png''), (4, lit ''barcodes/0004_12345678.png'')] \<and>
   generated_files (run_batch stub_runtime stub_generator
       [lit ''123456789012'', lit '''', lit ''1234567'', lit ''12345678''] []) =
     [lit ''barcodes/0001_123456789012.png'', lit ''barcodes/0004_12345678.png''] \<and>
   int (nat_of_str (format_04d 4)) = 4 \<and>
   length (format_04d 4) = 4 \<and>
   (\<exists>v w0 w1.
      render stub_runtime v (lit ''12345678'')
        (joinpath stub_runtime (output_dir stub_generator) (lit ''0004_12345678'')) w0
      = (Inr (lit ''barcodes/0004_12345678.png''), w1))"
proof -
  let ?l = "[lit ''123456789012'', lit '''', lit ''1234567'', lit ''12345678'']"
  have s: "successes stub_runtime stub_generator (enumerate_from 1 ?l) [] =
     [(1, lit ''barcodes/0001_123456789012.png''), (4, lit ''barcodes/0004_12345678.png'')]"
    by code_simp
  have m: "(4, lit ''barcodes/0004_12345678.png'') \<in>
      set (successes stub_runtime stub_generator (enumerate_from 1 ?l) [])"
    unfolding s by simp
  have n: "?l ! nat (4 - 1) = lit ''12345678''"
    by simp
  have c: "clean_upc stub_runtime (strip stub_runtime (lit ''12345678'')) = lit ''12345678''"
    by code_simp
  have f: "format_04d 4 @ lit ''_'' @ lit ''12345678'' = lit ''0004_12345678''"
    by code_simp
  note t = batch_preserves_order [of stub_runtime stub_generator ?l "[]" "[]" "[]"]
  from t have a: "generated_files (run_batch stub_runtime stub_generator ?l []) =
      [lit ''barcodes/0001_123456789012.png'', lit ''barcodes/0004_12345678.png'']"
    unfolding s by simp
  from t m have "int (nat_of_str (format_04d 4)) = 4 \<and> (4 \<le> (9999 :: int) \<longrightarrow> length (format_04d 4) = 4) \<and>
      (\<exists>v w0 w1.
         render stub_runtime v (clean_upc stub_runtime (strip stub_runtime (?l ! nat (4 - 1))))
           (joinpath stub_runtime (output_dir stub_generator)
              (format_04d 4 @ lit ''_'' @ clean_upc stub_runtime (strip stub_runtime (?l ! nat (4 - 1))))) w0
         = (Inr (lit ''barcodes/0004_12345678.png''), w1))"
    by blast
  then have b: "int (nat_of_str (format_04d 4)) = 4 \<and> length (format_04d 4) = 4 \<and>
      (\<exists>v w0 w1.
         render stub_runtime v (lit ''12345678'')
           (joinpath stub_runtime (output_dir stub_generator) (lit ''0004_12345678'')) w0
         = (Inr (lit ''barcodes/0004_12345678.png''), w1))"
    unfolding n c f by simp
  from s a b show ?thesis by blast
qed



subsection \<open>The command line\<close>




end
